theory Spec2Isabelle
  imports Main "HOL-Library.AList" "HOL-Library.Sublist"
begin

section \<open>Values, exceptions and dictionaries\<close>

text \<open>
  The command line interface of the yadage workflow engine of REANA (\<open>cli.py\<close>) receives
  its options as JSON documents. A decoded document is a value of type \<open>json\<close>; a Python
  \<open>dict\<close> with string keys is an association list in insertion order, the first pair of
  a key being the binding of that key.
\<close>

datatype json =
    JNull
  | JBool bool
  | JNum int
  | JStr string
  | JArr "json list"
  | JObj "(string \<times> json) list"

type_synonym dict = "(string \<times> json) list"

text \<open>
  The exceptions the module can meet. \<open>Exception\<close> is the one \<open>cli.py\<close> raises itself,
  \<open>KeyError\<close>, \<open>TypeError\<close> and \<open>AttributeError\<close> come from the Python operations on
  dictionaries and strings, and \<open>ExternalError\<close> is whatever a collaborator outside of the
  module raises, with its message.
\<close>

datatype error =
    Exception string
  | KeyError string
  | TypeError string
  | AttributeError string
  | ExternalError string

text \<open>A name between apostrophes, as Python's \<open>repr\<close> of a string prints it.\<close>

definition quoted :: "string \<Rightarrow> string" where
  "quoted s = [CHR 0x27] @ s @ [CHR 0x27]"

text \<open>\<open>str(e)\<close>: the message of an exception; a \<open>KeyError\<close> prints the quoted key.\<close>

fun str :: "error \<Rightarrow> string" where
  "str (Exception m) = m"
| "str (KeyError k) = quoted k"
| "str (TypeError m) = m"
| "str (AttributeError m) = m"
| "str (ExternalError m) = m"

text \<open>The name Python prints for the type of a decoded value.\<close>

fun type_name :: "json \<Rightarrow> string" where
  "type_name JNull = ''NoneType''"
| "type_name (JBool _) = ''bool''"
| "type_name (JNum _) = ''int''"
| "type_name (JStr _) = ''str''"
| "type_name (JArr _) = ''list''"
| "type_name (JObj _) = ''dict''"

definition startswith :: "string \<Rightarrow> string \<Rightarrow> bool" where
  "startswith s p = prefix p s"

definition endswith :: "string \<Rightarrow> string \<Rightarrow> bool" where
  "endswith s p = suffix p s"

text \<open>
  \<open>os.path.join(a, b)\<close> of \<open>posixpath\<close> for two strings: a second component that starts
  with the separator replaces the first; otherwise it is appended, after a separator
  unless the first component is empty or ends with one.
\<close>

definition os_path_join :: "string \<Rightarrow> string \<Rightarrow> string" where
  "os_path_join a b =
     (if startswith b ''/'' then b
      else if a = [] \<or> endswith a ''/'' then a @ b
      else a @ ''/'' @ b)"

text \<open>\<open>d.get(k, default)\<close>, \<open>d[k]\<close>, \<open>d[k] = v\<close> and \<open>k in d\<close>.\<close>

definition dict_get :: "dict \<Rightarrow> string \<Rightarrow> json \<Rightarrow> json" where
  "dict_get d k dflt = (case map_of d k of None \<Rightarrow> dflt | Some v \<Rightarrow> v)"

definition dict_getitem :: "dict \<Rightarrow> string \<Rightarrow> error + json" where
  "dict_getitem d k = (case map_of d k of None \<Rightarrow> Inl (KeyError k) | Some v \<Rightarrow> Inr v)"

definition dict_setitem :: "dict \<Rightarrow> string \<Rightarrow> json \<Rightarrow> dict" where
  "dict_setitem d k v = AList.update k v d"

definition dict_contains :: "string \<Rightarrow> dict \<Rightarrow> bool" where
  "dict_contains k d = (map_of d k \<noteq> None)"

text \<open>
  Iterating over a decoded value, as a \<open>for\<close> loop or a comprehension does: a list gives
  its elements, a string its characters (each a string of length one), a dictionary its
  keys; anything else is not iterable.
\<close>

fun py_iter :: "json \<Rightarrow> error + json list" where
  "py_iter (JArr xs) = Inr xs"
| "py_iter (JStr s) = Inr (map (\<lambda>c. JStr [c]) s)"
| "py_iter (JObj kvs) = Inr (map (\<lambda>kv. JStr (fst kv)) kvs)"
| "py_iter v = Inl (TypeError (quoted (type_name v) @ '' object is not iterable''))"

section \<open>Decoding the options: \<open>load_json\<close> and \<open>load_yadage_operational_options\<close>\<close>

text \<open>
  \<open>load_json(ctx, param, value)\<close> drops the first character of the option value and
  decodes the rest as base64-encoded JSON. The decoder
  \<open>json.loads(base64.standard_b64decode(_).decode())\<close> belongs to the Python library and
  is the parameter \<open>decode\<close>. An option that was not given has the value \<open>None\<close>, which
  cannot be sliced.
\<close>

definition load_json :: "(string \<Rightarrow> error + json) \<Rightarrow> string option \<Rightarrow> error + json" where
  "load_json decode v =
     (case v of
        None \<Rightarrow> Inl (TypeError (quoted ''NoneType'' @ '' object is not subscriptable''))
      | Some s \<Rightarrow> decode (drop 1 s))"

text \<open>\<open>os.path.join(workflow_workspace, v)\<close> for a decoded value: only a string can be joined.\<close>

definition join_under :: "string \<Rightarrow> json \<Rightarrow> error + json" where
  "join_under workflow_workspace v =
     (case v of
        JStr s \<Rightarrow> Inr (JStr (os_path_join workflow_workspace s))
      | _ \<Rightarrow> Inl (TypeError (''join() argument must be str, bytes, or os.PathLike object, not ''
                         @ quoted (type_name v))))"

text \<open>The list comprehension over the init files: it stops at the first element that raises.\<close>

fun join_all :: "string \<Rightarrow> json list \<Rightarrow> error + json list" where
  "join_all workflow_workspace [] = Inr []"
| "join_all workflow_workspace (x # xs) =
     (case join_under workflow_workspace x of
        Inl e \<Rightarrow> Inl e
      | Inr y \<Rightarrow>
          (case join_all workflow_workspace xs of
             Inl e \<Rightarrow> Inl e
           | Inr ys \<Rightarrow> Inr (y # ys)))"

text \<open>\<open>"{0}/{1}".format(SHARED_VOLUME_PATH, name)\<close>, where \<open>name\<close> may be \<open>None\<close>.\<close>

definition workspace_path :: "string \<Rightarrow> string option \<Rightarrow> string" where
  "workspace_path shared_volume_path name =
     shared_volume_path @ ''/'' @ (case name of None \<Rightarrow> ''None'' | Some n \<Rightarrow> n)"

text \<open>
  The body of \<open>load_yadage_operational_options\<close> after the decoding, on the decoded value:
  \<open>toplevel\<close> is joined under the workspace unless it starts with \<open>github:\<close>, \<open>initdir\<close>
  and every entry of \<open>initfiles\<close> are joined under the workspace; the three keys are
  stored back and every other key is left as it is.
\<close>

definition prepare_operational_options :: "string \<Rightarrow> json \<Rightarrow> error + dict" where
  "prepare_operational_options workflow_workspace operational_options =
     (case operational_options of
        JObj d \<Rightarrow>
          (case dict_get d ''toplevel'' (JStr '''') of
             JStr toplevel \<Rightarrow>
               (let toplevel' = (if \<not> startswith toplevel ''github:''
                                 then os_path_join workflow_workspace toplevel
                                 else toplevel);
                    d1 = dict_setitem d ''toplevel'' (JStr toplevel')
                in case join_under workflow_workspace (dict_get d1 ''initdir'' (JStr '''')) of
                     Inl e \<Rightarrow> Inl e
                   | Inr initdir \<Rightarrow>
                       (let d2 = dict_setitem d1 ''initdir'' initdir
                        in case py_iter (dict_get d2 ''initfiles'' (JArr [])) of
                             Inl e \<Rightarrow> Inl e
                           | Inr initfiles \<Rightarrow>
                               (case join_all workflow_workspace initfiles of
                                  Inl e \<Rightarrow> Inl e
                                | Inr initfiles' \<Rightarrow>
                                    Inr (dict_setitem d2 ''initfiles'' (JArr initfiles')))))
           | v \<Rightarrow> Inl (AttributeError (quoted (type_name v)
                                        @ '' object has no attribute '' @ quoted ''startswith'')))
      | v \<Rightarrow> Inl (AttributeError (quoted (type_name v)
                                   @ '' object has no attribute '' @ quoted ''get'')))"

text \<open>
  \<open>load_yadage_operational_options(ctx, param, operational_options)\<close>: the constant
  \<open>SHARED_VOLUME_PATH\<close> of \<open>reana_commons.config\<close> is the parameter \<open>shared_volume_path\<close>,
  and \<open>ctx_workflow_workspace\<close> is \<open>ctx.params.get("workflow_workspace")\<close>.
\<close>

definition load_yadage_operational_options ::
  "(string \<Rightarrow> error + json) \<Rightarrow> string \<Rightarrow> string option \<Rightarrow> string option \<Rightarrow> error + dict" where
  "load_yadage_operational_options decode shared_volume_path ctx_workflow_workspace v =
     (case load_json decode v of
        Inl e \<Rightarrow> Inl e
      | Inr operational_options \<Rightarrow>
          prepare_operational_options
            (workspace_path shared_volume_path ctx_workflow_workspace) operational_options)"

section \<open>Effects and collaborators of a run\<close>

text \<open>
  A status event is what \<open>publish_workflow_status(workflow_uuid, status, logs=...)\<close>
  receives: the identifier of the run, the numeric status (\<open>1\<close> running, \<open>2\<close> finished,
  \<open>3\<close> failed) and the log text, when one is passed.
\<close>

type_synonym status_event = "string \<times> nat \<times> string option"

record specopts =
  so_toplevel :: json
  so_schema_name :: string
  so_schemadir :: "string option"
  so_load_as_ref :: bool

record validopts =
  vo_schema_name :: string
  vo_schemadir :: "string option"

datatype backend = Backend string

text \<open>The keyword arguments of \<open>steering_ctx\<close>.\<close>

record steering_args =
  dataarg :: string
  dataopts_initdir :: json
  initdata :: dict
  visualize :: bool
  updateinterval :: nat
  loginterval :: nat
  backend :: backend
  accept_metadir :: bool
  workflow_json :: json

text \<open>
  Everything a run does to the world outside, in the order in which it happens: log
  records, the writes to the process environment, the calls to the collaborators with
  their arguments, the calls of \<open>publish_workflow_status\<close>, and the events that reach
  the status channel.
\<close>

datatype effect =
    LogInfo string
  | LogError string
  | SetEnviron string string
  | SetUmask nat
  | SetupBackend string
  | NewPublisher
  | PathExists string
  | Load string specopts validopts bool
  | SafeLoadOpen json
  | CheckConnection
  | SteeringCtx steering_args
  | NewTracker string
  | AdageArgument
  | RunAdage
  | Publish string nat "string option"
  | Delivered string nat "string option"

text \<open>
  An action returns a value or raises, and leaves a trace of effects. No action of the
  module reads back what it wrote, so the trace is all the state there is.
\<close>

type_synonym 'a action = "(error + 'a) \<times> effect list"

definition succeed :: "'a \<Rightarrow> 'a action" where
  "succeed x = (Inr x, [])"

definition raise :: "error \<Rightarrow> 'a action" where
  "raise e = (Inl e, [])"

definition emit :: "effect \<Rightarrow> unit action" where
  "emit f = (Inr (), [f])"

text \<open>A pure operation that may raise, and a call \<open>f\<close> to a collaborator with result \<open>r\<close>.\<close>

definition pure_result :: "error + 'a \<Rightarrow> 'a action" where
  "pure_result r = (r, [])"

definition outcome :: "effect \<Rightarrow> error + 'a \<Rightarrow> 'a action" where
  "outcome f r = (r, [f])"

text \<open>Sequencing: an exception in the first action skips the rest.\<close>

definition then_do :: "'a action \<Rightarrow> ('a \<Rightarrow> 'b action) \<Rightarrow> 'b action" where
  "then_do m f =
     (case m of
        (Inl e, t) \<Rightarrow> (Inl e, t)
      | (Inr x, t) \<Rightarrow> (case f x of (r, t') \<Rightarrow> (r, t @ t')))"

text \<open>\<open>try: m except Exception as e: h e\<close>.\<close>

definition try_except :: "'a action \<Rightarrow> (error \<Rightarrow> 'a action) \<Rightarrow> 'a action" where
  "try_except m h =
     (case m of
        (Inl e, t) \<Rightarrow> (case h e of (r, t') \<Rightarrow> (r, t @ t'))
      | (Inr x, t) \<Rightarrow> (Inr x, t))"

definition returned :: "error option \<Rightarrow> error + unit" where
  "returned r = (case r of None \<Rightarrow> Inr () | Some e \<Rightarrow> Inl e)"

text \<open>
  What \<open>yaml.safe_load\<close> gives back: a mapping, whose keys need not be strings, or a
  value of another type, of which only the name matters.
\<close>

datatype yaml_key = StrKey string | OtherKey

datatype loaded = Mapping "(yaml_key \<times> json) list" | NotMapping string

text \<open>
  The object that \<open>REANAWorkflowStatusPublisher()\<close> returns. The class is defined in
  \<open>utils.py\<close>, outside of these sources: whether the object tests true in \<open>if publisher\<close>
  and which events its channel delivers are therefore parameters.
\<close>

record publisher =
  truthy :: bool
  delivers :: "status_event \<Rightarrow> bool"

text \<open>
  The collaborators of \<open>run_yadage_workflow\<close>, each with the result of the call the run
  makes to it: the constants of \<open>reana_commons.config\<close>, \<open>setupbackend_fromstring\<close>,
  the constructor of the publisher, \<open>os.path.exists\<close>, \<open>yadageschemas.load\<close>,
  \<open>yaml.safe_load(open(_))\<close>, \<open>check_connection_to_job_controller\<close>, the entry into
  \<open>steering_ctx\<close>, the constructor of \<open>REANATracker\<close>, \<open>ys.adage_argument\<close>, and the exit
  of \<open>steering_ctx\<close> after a body that returned, which is where the engine runs the
  workflow. \<open>locals_repr\<close> is the text of \<open>locals()\<close> in the log record of the run.
\<close>

record env =
  shared_volume_path :: string
  reana_workflow_umask :: nat
  setupbackend_fromstring :: "string \<Rightarrow> error + backend"
  new_publisher :: "error + publisher"
  path_exists :: "string \<Rightarrow> bool"
  yadageschemas_load :: "string \<Rightarrow> specopts \<Rightarrow> validopts \<Rightarrow> bool \<Rightarrow> error + json"
  safe_load_open :: "json \<Rightarrow> error + loaded"
  check_connection_to_job_controller :: "error option"
  steering_ctx :: "steering_args \<Rightarrow> error option"
  new_tracker :: "string \<Rightarrow> error option"
  adage_argument :: "error option"
  run_adage :: "error option"
  locals_repr :: string

text \<open>
  Modelled from the spec: the log record that the status publisher writes when a
  delivery fails (the publisher of \<open>utils.py\<close> and of \<open>reana_commons\<close> is not among the
  sources, and the spec fixes no wording for the record).
\<close>

definition delivery_failed :: "status_event \<Rightarrow> effect" where
  "delivery_failed ev =
     LogError (''status of workflow '' @ fst ev @ '' could not be delivered'')"

text \<open>
  Modelled from the spec: the method \<open>publish_workflow_status\<close> of the status publisher
  (\<open>utils.py\<close> and the publisher of \<open>reana_commons\<close> are not among the sources). One call
  makes one attempt to deliver the event; a delivery that fails is caught and logged
  locally, and the call returns to its caller in either case.
\<close>

definition publish_workflow_status ::
  "publisher \<Rightarrow> string \<Rightarrow> nat \<Rightarrow> string option \<Rightarrow> unit action" where
  "publish_workflow_status p workflow_uuid status logs =
     (Inr (),
      [Publish workflow_uuid status logs,
       if delivers p (workflow_uuid, status, logs)
       then Delivered workflow_uuid status logs
       else delivery_failed (workflow_uuid, status, logs)])"

section \<open>The run: \<open>run_yadage_workflow\<close>\<close>

text \<open>
  The \<open>if\<close>/\<open>else\<close> at the head of the \<open>try\<close> block: the workflow file must exist at its
  absolute path; then the specification is loaded, from the file name as it was given,
  with the \<open>toplevel\<close> of the operational options.
\<close>

definition load_workflow :: "env \<Rightarrow> string \<Rightarrow> string \<Rightarrow> dict \<Rightarrow> json action" where
  "load_workflow env workflow_file workflow_file_abs_path operational_options =
     then_do (outcome (PathExists workflow_file_abs_path)
                (Inr (path_exists env workflow_file_abs_path))) (\<lambda>found.
     if \<not> found
     then raise (Exception (''Workflow file '' @ workflow_file @ '' does not exist''))
     else
       then_do (pure_result (dict_getitem operational_options ''toplevel'')) (\<lambda>toplevel.
       let schema_name = ''yadage/workflow-schema'';
           schemadir = None;
           specopts = \<lparr>so_toplevel = toplevel, so_schema_name = schema_name,
                       so_schemadir = schemadir, so_load_as_ref = False\<rparr>;
           validopts = \<lparr>vo_schema_name = schema_name, vo_schemadir = schemadir\<rparr>
       in outcome (Load workflow_file specopts validopts True)
            (yadageschemas_load env workflow_file specopts validopts True)))"

text \<open>
  \<open>initdata.update(**m)\<close>: the argument must be a mapping whose keys are all strings; its
  pairs are stored in their order. \<open>initdata.update(workflow_parameters)\<close>: the
  parameters are a dictionary, or \<open>None\<close> when the option was not passed.
\<close>

definition dict_update :: "dict \<Rightarrow> (string \<times> json) list \<Rightarrow> dict" where
  "dict_update d kvs = fold (\<lambda>kv acc. dict_setitem acc (fst kv) (snd kv)) kvs d"

fun str_keys :: "(yaml_key \<times> json) list \<Rightarrow> (string \<times> json) list option" where
  "str_keys [] = Some []"
| "str_keys ((StrKey k, v) # kvs) =
     (case str_keys kvs of None \<Rightarrow> None | Some r \<Rightarrow> Some ((k, v) # r))"
| "str_keys ((OtherKey, v) # kvs) = None"

definition update_kwargs :: "dict \<Rightarrow> loaded \<Rightarrow> error + dict" where
  "update_kwargs d m =
     (case m of
        NotMapping tn \<Rightarrow>
          Inl (TypeError (''dict.update() argument after ** must be a mapping, not '' @ tn))
      | Mapping kvs \<Rightarrow>
          (case str_keys kvs of
             None \<Rightarrow> Inl (TypeError ''keywords must be strings'')
           | Some skvs \<Rightarrow> Inr (dict_update d skvs)))"

definition update_params :: "dict \<Rightarrow> dict option \<Rightarrow> error + dict" where
  "update_params d workflow_parameters =
     (case workflow_parameters of
        None \<Rightarrow> Inl (TypeError (quoted ''NoneType'' @ '' object is not iterable''))
      | Some ps \<Rightarrow> Inr (dict_update d ps))"

text \<open>The loop over the init files: each is opened, parsed and merged into \<open>initdata\<close>.\<close>

fun update_from_files :: "env \<Rightarrow> json list \<Rightarrow> dict \<Rightarrow> dict action" where
  "update_from_files env [] data = succeed data"
| "update_from_files env (initfile # rest) data =
     then_do (outcome (SafeLoadOpen initfile) (safe_load_open env initfile)) (\<lambda>m.
     then_do (pure_result (update_kwargs data m)) (\<lambda>data'.
     update_from_files env rest data'))"

text \<open>
  The four statements that build \<open>initdata\<close>: start empty, merge the init files in the
  order of the list, then the workflow parameters.
\<close>

definition merge_initdata :: "env \<Rightarrow> dict \<Rightarrow> dict option \<Rightarrow> dict action" where
  "merge_initdata env operational_options workflow_parameters =
     then_do (pure_result (dict_getitem operational_options ''initfiles'')) (\<lambda>initfiles.
     then_do (pure_result (py_iter initfiles)) (\<lambda>files.
     then_do (update_from_files env files []) (\<lambda>data.
     pure_result (update_params data workflow_parameters))))"

text \<open>
  The first part of the \<open>try\<close> block, up to the connectivity check: it gives the loaded
  workflow, the \<open>initdir\<close> and the merged initial data.
\<close>

definition preparation ::
  "env \<Rightarrow> string \<Rightarrow> string \<Rightarrow> dict option \<Rightarrow> dict \<Rightarrow> (json \<times> json \<times> dict) action" where
  "preparation env workflow_file workflow_file_abs_path workflow_parameters operational_options =
     then_do (load_workflow env workflow_file workflow_file_abs_path operational_options)
       (\<lambda>wfjson.
     then_do (pure_result (dict_getitem operational_options ''initdir'')) (\<lambda>initdir.
     then_do (merge_initdata env operational_options workflow_parameters) (\<lambda>data.
     then_do (outcome CheckConnection (returned (check_connection_to_job_controller env)))
       (\<lambda>_.
     succeed (wfjson, initdir, data)))))"

text \<open>The arguments with which \<open>steering_ctx\<close> is called.\<close>

definition steering_kwargs ::
  "string \<Rightarrow> backend \<Rightarrow> dict \<Rightarrow> json \<times> json \<times> dict \<Rightarrow> steering_args" where
  "steering_kwargs workflow_workspace cap_backend operational_options prepared =
     (case prepared of (wfjson, initdir, data) \<Rightarrow>
        \<lparr>dataarg = workflow_workspace,
         dataopts_initdir = initdir,
         initdata = data,
         visualize = True,
         updateinterval = 5,
         loginterval = 5,
         backend = cap_backend,
         accept_metadir = dict_contains ''accept_metadir'' operational_options,
         workflow_json = wfjson\<rparr>)"

text \<open>
  The \<open>with steering_ctx(...) as ys\<close> statement and what follows it in the \<open>try\<close> block:
  the context is entered, the run is logged and published as running, the tracker is
  handed to the engine, and leaving the body makes the engine run the workflow; then the
  run is published as finished and logged. An exception in the body leaves the context
  without running the workflow.
\<close>

definition execution ::
  "env \<Rightarrow> publisher \<Rightarrow> string \<Rightarrow> string \<Rightarrow> steering_args \<Rightarrow> unit action" where
  "execution env publisher workflow_uuid workflow_workspace args =
     then_do (outcome (SteeringCtx args) (returned (steering_ctx env args))) (\<lambda>_.
     then_do (emit (LogInfo (''running workflow on context: '' @ locals_repr env))) (\<lambda>_.
     then_do (publish_workflow_status publisher workflow_uuid 1 None) (\<lambda>_.
     then_do (outcome (NewTracker workflow_uuid) (returned (new_tracker env workflow_uuid)))
       (\<lambda>_.
     then_do (outcome AdageArgument (returned (adage_argument env))) (\<lambda>_.
     then_do (outcome RunAdage (returned (run_adage env))) (\<lambda>_.
     then_do (publish_workflow_status publisher workflow_uuid 2 None) (\<lambda>_.
     emit (LogInfo (''Workflow '' @ workflow_uuid @ '' finished. Files available at ''
                    @ workflow_workspace @ ''.'')))))))))"

text \<open>The \<open>try\<close> block.\<close>

definition guarded ::
  "env \<Rightarrow> publisher \<Rightarrow> backend \<Rightarrow> string \<Rightarrow> string \<Rightarrow> string \<Rightarrow> string \<Rightarrow> dict option
     \<Rightarrow> dict \<Rightarrow> unit action" where
  "guarded env publisher cap_backend workflow_uuid workflow_workspace workflow_file
     workflow_file_abs_path workflow_parameters operational_options =
     then_do (preparation env workflow_file workflow_file_abs_path workflow_parameters
                operational_options) (\<lambda>prepared.
     execution env publisher workflow_uuid workflow_workspace
       (steering_kwargs workflow_workspace cap_backend operational_options prepared))"

text \<open>The \<open>except Exception as e\<close> block.\<close>

definition on_exception :: "publisher \<Rightarrow> string \<Rightarrow> error \<Rightarrow> unit action" where
  "on_exception publisher workflow_uuid e =
     then_do (emit (LogError (''Workflow failed: '' @ str e))) (\<lambda>_.
     if truthy publisher
     then publish_workflow_status publisher workflow_uuid 3
            (Some (''workflow failed: '' @ str e))
     else emit (LogError (''Workflow '' @ workflow_uuid
                          @ '' failed but status could not be published.'')))"

text \<open>
  \<open>run_yadage_workflow\<close>. The backend and the publisher are set up before the \<open>try\<close>
  block: an exception of either leaves the function.
\<close>

definition run_yadage_workflow ::
  "env \<Rightarrow> string \<Rightarrow> string \<Rightarrow> string \<Rightarrow> dict option \<Rightarrow> dict \<Rightarrow> unit action" where
  "run_yadage_workflow env workflow_uuid workflow_workspace workflow_file
     workflow_parameters operational_options =
     then_do (emit (LogInfo ''getting socket..'')) (\<lambda>_.
     let workflow_workspace' = workspace_path (shared_volume_path env) (Some workflow_workspace)
     in
     then_do (emit (SetEnviron ''workflow_uuid'' workflow_uuid)) (\<lambda>_.
     then_do (emit (SetEnviron ''workflow_workspace'' workflow_workspace')) (\<lambda>_.
     then_do (emit (SetUmask (reana_workflow_umask env))) (\<lambda>_.
     then_do (outcome (SetupBackend ''fromenv'') (setupbackend_fromstring env ''fromenv''))
       (\<lambda>cap_backend.
     let workflow_file_abs_path = os_path_join workflow_workspace' workflow_file in
     then_do (outcome NewPublisher (new_publisher env)) (\<lambda>publisher.
     try_except
       (guarded env publisher cap_backend workflow_uuid workflow_workspace' workflow_file
          workflow_file_abs_path workflow_parameters operational_options)
       (on_exception publisher workflow_uuid)))))))"

text \<open>The calls of \<open>publish_workflow_status\<close> in a trace, in their order.\<close>

definition publish_calls :: "effect list \<Rightarrow> status_event list" where
  "publish_calls t =
     concat (map (\<lambda>f. case f of Publish u s l \<Rightarrow> [(u, s, l)] | _ \<Rightarrow> []) t)"

text \<open>A terminal status is \<open>2\<close> (finished) or \<open>3\<close> (failed).\<close>

definition terminal :: "status_event \<Rightarrow> bool" where
  "terminal ev = (fst (snd ev) = 2 \<or> fst (snd ev) = 3)"

text \<open>The arguments of the calls of \<open>steering_ctx\<close> in a trace.\<close>

definition engine_calls :: "effect list \<Rightarrow> steering_args list" where
  "engine_calls t = concat (map (\<lambda>f. case f of SteeringCtx a \<Rightarrow> [a] | _ \<Rightarrow> []) t)"

text \<open>What every run does before it sets up the backend.\<close>

definition preamble :: "env \<Rightarrow> string \<Rightarrow> string \<Rightarrow> effect list" where
  "preamble env workflow_uuid workflow_workspace =
     [LogInfo ''getting socket..'',
      SetEnviron ''workflow_uuid'' workflow_uuid,
      SetEnviron ''workflow_workspace''
        (workspace_path (shared_volume_path env) (Some workflow_workspace)),
      SetUmask (reana_workflow_umask env),
      SetupBackend ''fromenv'']"

text \<open>
  The \<open>try\<close> block as \<open>run_yadage_workflow\<close> runs it, with the workspace path and the
  absolute path of the workflow file that the function computes from its arguments.
\<close>

definition try_block ::
  "env \<Rightarrow> publisher \<Rightarrow> backend \<Rightarrow> string \<Rightarrow> string \<Rightarrow> string \<Rightarrow> dict option \<Rightarrow> dict
     \<Rightarrow> unit action" where
  "try_block env publisher cap_backend workflow_uuid workflow_workspace workflow_file
     workflow_parameters operational_options =
     guarded env publisher cap_backend workflow_uuid
       (workspace_path (shared_volume_path env) (Some workflow_workspace)) workflow_file
       (os_path_join (workspace_path (shared_volume_path env) (Some workflow_workspace))
          workflow_file)
       workflow_parameters operational_options"

text \<open>A dictionary as \<open>yaml.safe_load\<close> returns it.\<close>

definition as_mapping :: "dict \<Rightarrow> loaded" where
  "as_mapping m = Mapping (map (\<lambda>kv. (StrKey (fst kv), snd kv)) m)"

text \<open>Every event of the trace that the channel did not deliver has its log record.\<close>

definition reported :: "publisher \<Rightarrow> effect list \<Rightarrow> bool" where
  "reported p t =
     (\<forall>ev\<in>set (publish_calls t). \<not> delivers p ev \<longrightarrow> delivery_failed ev \<in> set t)"

section \<open>Example runs\<close>

text \<open>
  A world in which everything works: the workflow file exists, the init files \<open>a.yaml\<close>
  and \<open>b.yaml\<close> of the workspace \<open>w\<close> hold \<open>{x: 1, y: 2}\<close> and \<open>{y: 3, z: 4}\<close>, every
  collaborator returns and the channel delivers every event.
\<close>

definition delivers_all :: "status_event \<Rightarrow> bool" where
  "delivers_all ev = True"

definition delivers_none :: "status_event \<Rightarrow> bool" where
  "delivers_none ev = False"

definition example_publisher :: publisher where
  "example_publisher = \<lparr>truthy = True, delivers = delivers_all\<rparr>"

definition example_files :: "json \<Rightarrow> error + loaded" where
  "example_files f =
     (if f = JStr ''/var/reana/w/a.yaml''
      then Inr (Mapping [(StrKey ''x'', JNum 1), (StrKey ''y'', JNum 2)])
      else if f = JStr ''/var/reana/w/b.yaml''
      then Inr (Mapping [(StrKey ''y'', JNum 3), (StrKey ''z'', JNum 4)])
      else Inl (ExternalError ''No such file or directory''))"

definition example_backend :: "string \<Rightarrow> error + backend" where
  "example_backend s = Inr (Backend s)"

definition every_path_exists :: "string \<Rightarrow> bool" where
  "every_path_exists p = True"

definition no_path_exists :: "string \<Rightarrow> bool" where
  "no_path_exists p = False"

definition example_load :: "string \<Rightarrow> specopts \<Rightarrow> validopts \<Rightarrow> bool \<Rightarrow> error + json" where
  "example_load spec so vo validate = Inr (JObj [])"

definition enters :: "steering_args \<Rightarrow> error option" where
  "enters args = None"

definition tracks :: "string \<Rightarrow> error option" where
  "tracks identifier = None"

definition example_env :: env where
  "example_env =
     \<lparr>shared_volume_path = ''/var/reana'',
      reana_workflow_umask = 2,
      setupbackend_fromstring = example_backend,
      new_publisher = Inr example_publisher,
      path_exists = every_path_exists,
      yadageschemas_load = example_load,
      safe_load_open = example_files,
      check_connection_to_job_controller = None,
      steering_ctx = enters,
      new_tracker = tracks,
      adage_argument = None,
      run_adage = None,
      locals_repr = ''{}''\<rparr>"

text \<open>The same world with one collaborator that fails.\<close>

definition failing_backend :: "string \<Rightarrow> error + backend" where
  "failing_backend s = Inl (ExternalError ''backend is not configured'')"

definition env_backend_fails :: env where
  "env_backend_fails = example_env\<lparr>setupbackend_fromstring := failing_backend\<rparr>"

definition env_publisher_fails :: env where
  "env_publisher_fails = example_env\<lparr>new_publisher := Inl (ExternalError ''broker unreachable'')\<rparr>"

definition env_file_missing :: env where
  "env_file_missing = example_env\<lparr>path_exists := no_path_exists\<rparr>"

definition env_engine_fails :: env where
  "env_engine_fails = example_env\<lparr>run_adage := Some (ExternalError ''step failed'')\<rparr>"

definition silent_publisher :: publisher where
  "silent_publisher = \<lparr>truthy = True, delivers = delivers_none\<rparr>"

definition env_channel_down :: env where
  "env_channel_down = example_env\<lparr>new_publisher := Inr silent_publisher\<rparr>"

text \<open>
  Operational options as decoded from the command line, with relative paths, with a
  remote \<open>toplevel\<close>, and as \<open>load_yadage_operational_options\<close> leaves the first ones.
  The example decoder stands for the base64 and JSON decoding of three payloads, which it
  knows by a name.
\<close>

definition example_raw_options :: dict where
  "example_raw_options =
     [(''initfiles'', JArr [JStr ''a.yaml'', JStr ''b.yaml'']),
      (''accept_metadir'', JBool False)]"

definition example_remote_options :: dict where
  "example_remote_options = [(''toplevel'', JStr ''github:reanahub/demo'')]"

definition example_options :: dict where
  "example_options =
     [(''initfiles'', JArr [JStr ''/var/reana/w/a.yaml'', JStr ''/var/reana/w/b.yaml'']),
      (''accept_metadir'', JBool False),
      (''toplevel'', JStr ''/var/reana/w/''),
      (''initdir'', JStr ''/var/reana/w/'')]"

definition example_plain_options :: dict where
  "example_plain_options =
     [(''initfiles'', JArr []),
      (''toplevel'', JStr ''/var/reana/w/''),
      (''initdir'', JStr ''/var/reana/w/'')]"

definition example_missing_options :: dict where
  "example_missing_options =
     [(''initfiles'', JArr [JStr ''/var/reana/w/c.yaml'']),
      (''toplevel'', JStr ''/var/reana/w/''),
      (''initdir'', JStr ''/var/reana/w/'')]"

definition example_decode :: "string \<Rightarrow> error + json" where
  "example_decode s =
     (if s = ''raw'' then Inr (JObj example_raw_options)
      else if s = ''remote'' then Inr (JObj example_remote_options)
      else if s = ''resolved'' then Inr (JObj example_options)
      else Inl (ExternalError ''Incorrect padding''))"

section \<open>Dictionaries and paths\<close>

lemma map_of_setitem [simp]: "map_of (dict_setitem d k v) = (map_of d)(k \<mapsto> v)"
  by (simp add: dict_setitem_def update_conv')

lemma dict_get_setitem:
  "dict_get (dict_setitem d k v) k' dflt = (if k' = k then v else dict_get d k' dflt)"
  by (simp add: dict_get_def)

lemma setitem_same: "map_of d k = Some v \<Longrightarrow> dict_setitem d k v = d"
  by (simp add: dict_setitem_def update_triv)

lemma join_relative_prefix: "\<not> startswith t ''/'' \<Longrightarrow> prefix a (os_path_join a t)"
  by (simp add: os_path_join_def)

lemma join_absolute: "startswith t ''/'' \<Longrightarrow> os_path_join a t = t"
  by (simp add: os_path_join_def)

lemma join_empty: "os_path_join a [] = (if a = [] \<or> endswith a ''/'' then a else a @ ''/'')"
  by (simp add: os_path_join_def startswith_def)

lemma join_all_strings:
  "join_all ws (map JStr fs) = Inr (map (\<lambda>f. JStr (os_path_join ws f)) fs)"
  by (induction fs) (simp_all add: join_under_def)

lemma workspace_path_nonempty: "workspace_path s n \<noteq> []"
  by (simp add: workspace_path_def)

lemma str_keys_as_mapping: "str_keys (map (\<lambda>kv. (StrKey (fst kv), snd kv)) m) = Some m"
  by (induction m) auto

lemma dict_update_Cons:
  "dict_update d (kv # kvs) = dict_update (dict_setitem d (fst kv) (snd kv)) kvs"
  by (simp add: dict_update_def)

text \<open>Updating with a dictionary overlays it: its keys win, the other keys stay.\<close>

lemma lookup_dict_update:
  "distinct (map fst kvs) \<Longrightarrow>
     map_of (dict_update d kvs) k = (case map_of kvs k of None \<Rightarrow> map_of d k | Some v \<Rightarrow> Some v)"
proof (induction kvs arbitrary: d)
  case Nil
  then show ?case by (simp add: dict_update_def)
next
  case (Cons kv kvs)
  have none: "map_of kvs (fst kv) = None"
    using Cons.prems by (simp add: map_of_eq_None_iff)
  show ?case
    using Cons.prems none
    by (cases kv) (auto simp add: dict_update_Cons Cons.IH split: option.splits)
qed

lemma map_of_dict_update:
  "distinct (map fst kvs) \<Longrightarrow> map_of (dict_update d kvs) = map_of d ++ map_of kvs"
  by (rule ext) (simp add: lookup_dict_update map_add_def)

section \<open>Traces of the combinators and of the phases of a run\<close>

lemma fst_then_do:
  "fst (then_do m f) = (case fst m of Inl e \<Rightarrow> Inl e | Inr x \<Rightarrow> fst (f x))"
  by (cases m) (auto simp: then_do_def split: sum.splits prod.splits)

lemma snd_then_do:
  "snd (then_do m f) = snd m @ (case fst m of Inl e \<Rightarrow> [] | Inr x \<Rightarrow> snd (f x))"
  by (cases m) (auto simp: then_do_def split: sum.splits prod.splits)

lemma fst_try_except:
  "fst (try_except m h) = (case fst m of Inl e \<Rightarrow> fst (h e) | Inr x \<Rightarrow> Inr x)"
  by (cases m) (auto simp: try_except_def split: sum.splits prod.splits)

lemma snd_try_except:
  "snd (try_except m h) = snd m @ (case fst m of Inl e \<Rightarrow> snd (h e) | Inr x \<Rightarrow> [])"
  by (cases m) (auto simp: try_except_def split: sum.splits prod.splits)

lemma publish_calls_append [simp]:
  "publish_calls (s @ t) = publish_calls s @ publish_calls t"
  by (simp add: publish_calls_def)

lemma publish_calls_Nil [simp]: "publish_calls [] = []"
  by (simp add: publish_calls_def)

lemma publish_calls_Cons:
  "publish_calls (f # t) =
     (case f of Publish u s l \<Rightarrow> [(u, s, l)] | _ \<Rightarrow> []) @ publish_calls t"
  by (simp add: publish_calls_def)

lemma engine_calls_append [simp]: "engine_calls (s @ t) = engine_calls s @ engine_calls t"
  by (simp add: engine_calls_def)

lemma engine_calls_Nil [simp]: "engine_calls [] = []"
  by (simp add: engine_calls_def)

lemma engine_calls_Cons:
  "engine_calls (f # t) = (case f of SteeringCtx a \<Rightarrow> [a] | _ \<Rightarrow> []) @ engine_calls t"
  by (simp add: engine_calls_def)

lemmas action_simps = fst_then_do snd_then_do fst_try_except snd_try_except
  succeed_def raise_def emit_def pure_result_def outcome_def returned_def

text \<open>The init files are merged in the order of the list, each over the ones before it.\<close>

lemma update_from_files_overlay:
  assumes "list_all2 (\<lambda>f m. safe_load_open env f = Inr (as_mapping m)) fs ms"
    and "\<forall>m\<in>set ms. distinct (map fst m)"
  shows "\<exists>d'. fst (update_from_files env fs d) = Inr d'
    \<and> map_of d' = foldl (++) (map_of d) (map map_of ms)"
  using assms
proof (induction fs ms arbitrary: d rule: list_all2_induct)
  case Nil
  then show ?case by (simp add: succeed_def)
next
  case (Cons f fs m ms)
  obtain d' where d': "fst (update_from_files env fs (dict_update d m)) = Inr d'"
      "map_of d' = foldl (++) (map_of (dict_update d m)) (map map_of ms)"
    using Cons.IH [of "dict_update d m"] Cons.prems by auto
  show ?case
    using Cons.hyps(1) Cons.prems d'
    by (simp add: fst_then_do outcome_def pure_result_def update_kwargs_def as_mapping_def
        str_keys_as_mapping map_of_dict_update)
qed

text \<open>Nothing is published, and the engine is not called, before the engine is entered.\<close>

lemma load_workflow_publishes: "publish_calls (snd (load_workflow env f a os)) = []"
  by (simp add: load_workflow_def action_simps publish_calls_Cons Let_def split: sum.splits)

lemma update_from_files_publishes: "publish_calls (snd (update_from_files env fs d)) = []"
  by (induction fs arbitrary: d) (simp_all add: action_simps publish_calls_Cons split: sum.splits)

lemma merge_initdata_publishes: "publish_calls (snd (merge_initdata env os ps)) = []"
  by (simp add: merge_initdata_def action_simps update_from_files_publishes split: sum.splits)

lemma preparation_publishes: "publish_calls (snd (preparation env f a ps os)) = []"
  by (simp add: preparation_def action_simps load_workflow_publishes merge_initdata_publishes
      publish_calls_Cons split: sum.splits)

lemma load_workflow_engine: "engine_calls (snd (load_workflow env f a os)) = []"
  by (simp add: load_workflow_def action_simps engine_calls_Cons Let_def split: sum.splits)

lemma update_from_files_engine: "engine_calls (snd (update_from_files env fs d)) = []"
  by (induction fs arbitrary: d) (simp_all add: action_simps engine_calls_Cons split: sum.splits)

lemma merge_initdata_engine: "engine_calls (snd (merge_initdata env os ps)) = []"
  by (simp add: merge_initdata_def action_simps update_from_files_engine split: sum.splits)

lemma preparation_engine: "engine_calls (snd (preparation env f a ps os)) = []"
  by (simp add: preparation_def action_simps load_workflow_engine merge_initdata_engine
      engine_calls_Cons split: sum.splits)

text \<open>
  The ways in which the preparation raises: the workflow file is missing; the workflow
  is loaded and an init file cannot be opened or parsed, or holds no dictionary; the
  workflow and the initial data are there and the job controller cannot be reached.
\<close>

lemma preparation_workflow_file_missing:
  assumes "\<not> path_exists env a"
  shows "fst (preparation env f a ps os) =
    Inl (Exception (''Workflow file '' @ f @ '' does not exist''))"
  using assms by (simp add: preparation_def load_workflow_def action_simps)

lemma update_from_files_raises:
  assumes "list_all2 (\<lambda>f m. safe_load_open env f = Inr (as_mapping m)) fs ms"
    and "safe_load_open env g = Inl e
         \<or> (\<exists>m. safe_load_open env g = Inr m \<and> (\<forall>d'. update_kwargs d' m = Inl e))"
  shows "fst (update_from_files env (fs @ g # gs) d) = Inl e"
  using assms
proof (induction fs ms arbitrary: d rule: list_all2_induct)
  case Nil
  then show ?case by (auto simp add: action_simps)
next
  case (Cons f fs m ms)
  show ?case
    using Cons.hyps(1) Cons.IH [OF Cons.prems]
    by (simp add: action_simps update_kwargs_def as_mapping_def str_keys_as_mapping)
qed

lemma preparation_init_file_fails:
  assumes "fst (load_workflow env f a os) = Inr wfjson"
    and "map_of os ''initdir'' = Some i"
    and "map_of os ''initfiles'' = Some v"
    and "py_iter v = Inr (fs @ g # gs)"
    and "list_all2 (\<lambda>f m. safe_load_open env f = Inr (as_mapping m)) fs ms"
    and "safe_load_open env g = Inl e
         \<or> (\<exists>m. safe_load_open env g = Inr m \<and> (\<forall>d'. update_kwargs d' m = Inl e))"
  shows "fst (preparation env f a ps os) = Inl e"
  using assms(1-4) update_from_files_raises [OF assms(5,6), of gs "[]"]
  by (simp add: preparation_def merge_initdata_def action_simps dict_getitem_def)

lemma preparation_connection_fails:
  assumes "fst (load_workflow env f a os) = Inr wfjson"
    and "map_of os ''initdir'' = Some i"
    and "fst (merge_initdata env os ps) = Inr d"
    and "check_connection_to_job_controller env = Some e"
  shows "fst (preparation env f a ps os) = Inl e"
  using assms by (simp add: preparation_def action_simps dict_getitem_def)

lemma fst_publish [simp]: "fst (publish_workflow_status p u s l) = Inr ()"
  by (simp add: publish_workflow_status_def)

lemma publish_calls_publish [simp]:
  "publish_calls (snd (publish_workflow_status p u s l)) = [(u, s, l)]"
  by (simp add: publish_workflow_status_def publish_calls_Cons delivery_failed_def)

text \<open>
  The three ways in which the \<open>with\<close> statement ends: it returns, with the run published
  as running and as finished; the entry into the context raises, with nothing published;
  or something raises after the entry, with the run published as running.
\<close>

lemma execution_cases:
  "(fst (execution env p u w args) = Inr ()
      \<and> steering_ctx env args = None \<and> new_tracker env u = None
      \<and> adage_argument env = None \<and> run_adage env = None
      \<and> publish_calls (snd (execution env p u w args)) = [(u, 1, None), (u, 2, None)])
   \<or> (\<exists>e. fst (execution env p u w args) = Inl e \<and> steering_ctx env args = Some e
      \<and> publish_calls (snd (execution env p u w args)) = [])
   \<or> (\<exists>e. fst (execution env p u w args) = Inl e \<and> steering_ctx env args = None
      \<and> publish_calls (snd (execution env p u w args)) = [(u, 1, None)])"
  by (simp add: execution_def action_simps publish_calls_Cons split: option.splits)

lemma execution_returns:
  assumes "steering_ctx env args = None" and "new_tracker env u = None"
    and "adage_argument env = None" and "run_adage env = None"
  shows "fst (execution env p u w args) = Inr ()"
    and "publish_calls (snd (execution env p u w args)) = [(u, 1, None), (u, 2, None)]"
  using assms by (simp_all add: execution_def action_simps publish_calls_Cons)

lemma execution_engine: "engine_calls (snd (execution env p u w args)) = [args]"
  by (simp add: execution_def action_simps engine_calls_Cons publish_workflow_status_def
      delivery_failed_def split: option.splits)

lemma fst_on_exception [simp]: "fst (on_exception p u e) = Inr ()"
  by (simp add: on_exception_def action_simps)

lemma publish_calls_on_exception:
  "publish_calls (snd (on_exception p u e)) =
     (if truthy p then [(u, 3, Some (''workflow failed: '' @ str e))] else [])"
  by (simp add: on_exception_def action_simps publish_calls_Cons)

lemma on_exception_engine: "engine_calls (snd (on_exception p u e)) = []"
  by (simp add: on_exception_def action_simps engine_calls_Cons publish_workflow_status_def
      delivery_failed_def)

lemma publish_calls_preamble [simp]: "publish_calls (preamble env u w) = []"
  by (simp add: preamble_def publish_calls_Cons)

lemma engine_calls_preamble [simp]: "engine_calls (preamble env u w) = []"
  by (simp add: preamble_def engine_calls_Cons)

text \<open>The three ways in which \<open>run_yadage_workflow\<close> goes on after its first statements.\<close>

lemma run_backend_raises:
  assumes "setupbackend_fromstring env ''fromenv'' = Inl e"
  shows "run_yadage_workflow env u w f ps os = (Inl e, preamble env u w)"
  using assms
  by (simp add: run_yadage_workflow_def then_do_def emit_def outcome_def preamble_def)

lemma run_publisher_raises:
  assumes "setupbackend_fromstring env ''fromenv'' = Inr b" and "new_publisher env = Inl e"
  shows "run_yadage_workflow env u w f ps os = (Inl e, preamble env u w @ [NewPublisher])"
  using assms
  by (simp add: run_yadage_workflow_def then_do_def emit_def outcome_def preamble_def)

lemma run_guarded:
  assumes "setupbackend_fromstring env ''fromenv'' = Inr b" and "new_publisher env = Inr p"
  shows "run_yadage_workflow env u w f ps os =
    (fst (try_except (try_block env p b u w f ps os) (on_exception p u)),
     preamble env u w @ NewPublisher
       # snd (try_except (try_block env p b u w f ps os) (on_exception p u)))"
  using assms
  by (simp add: run_yadage_workflow_def then_do_def emit_def outcome_def preamble_def
      try_block_def Let_def split: prod.splits)

lemma fst_try_block:
  "fst (try_block env p b u w f ps os) =
     (case fst (preparation env f
                  (os_path_join (workspace_path (shared_volume_path env) (Some w)) f) ps os) of
        Inl e \<Rightarrow> Inl e
      | Inr x \<Rightarrow>
          fst (execution env p u (workspace_path (shared_volume_path env) (Some w))
                 (steering_kwargs (workspace_path (shared_volume_path env) (Some w)) b os x)))"
  by (simp add: try_block_def guarded_def fst_then_do)

lemma publish_calls_try_block:
  "publish_calls (snd (try_block env p b u w f ps os)) =
     (case fst (preparation env f
                  (os_path_join (workspace_path (shared_volume_path env) (Some w)) f) ps os) of
        Inl e \<Rightarrow> []
      | Inr x \<Rightarrow>
          publish_calls
            (snd (execution env p u (workspace_path (shared_volume_path env) (Some w))
               (steering_kwargs (workspace_path (shared_volume_path env) (Some w)) b os x))))"
  by (simp add: try_block_def guarded_def snd_then_do preparation_publishes split: sum.splits)

lemma try_block_cases:
  "(fst (try_block env p b u w f ps os) = Inr ()
      \<and> publish_calls (snd (try_block env p b u w f ps os)) = [(u, 1, None), (u, 2, None)])
   \<or> (\<exists>e. fst (try_block env p b u w f ps os) = Inl e
      \<and> (publish_calls (snd (try_block env p b u w f ps os)) = []
         \<or> publish_calls (snd (try_block env p b u w f ps os)) = [(u, 1, None)]))"
proof (cases "fst (preparation env f
                  (os_path_join (workspace_path (shared_volume_path env) (Some w)) f) ps os)")
  case (Inl e)
  then show ?thesis by (simp add: fst_try_block publish_calls_try_block)
next
  case (Inr x)
  show ?thesis
    using execution_cases [of env p u "workspace_path (shared_volume_path env) (Some w)"
        "steering_kwargs (workspace_path (shared_volume_path env) (Some w)) b os x"]
    by (auto simp add: fst_try_block publish_calls_try_block Inr)
qed

lemma try_block_engine:
  "a \<in> set (engine_calls (snd (try_block env p b u w f ps os))) \<Longrightarrow>
     accept_metadir a = dict_contains ''accept_metadir'' os"
  by (auto simp add: try_block_def guarded_def snd_then_do preparation_engine execution_engine
      steering_kwargs_def split: sum.splits prod.splits)

text \<open>Which publisher the constructor returns changes neither the preparation nor what the
  \<open>with\<close> statement returns and publishes.\<close>

lemma update_from_files_publisher:
  "update_from_files (env\<lparr>new_publisher := q\<rparr>) fs d = update_from_files env fs d"
  by (induction fs arbitrary: d)
    (simp_all add: then_do_def outcome_def pure_result_def split: sum.splits)

lemma preparation_publisher:
  "preparation (env\<lparr>new_publisher := q\<rparr>) f a ps os = preparation env f a ps os"
  by (simp add: preparation_def load_workflow_def merge_initdata_def update_from_files_publisher
      then_do_def outcome_def pure_result_def split: sum.splits)

lemma execution_publisher:
  "fst (execution (env\<lparr>new_publisher := q\<rparr>) p' u w a) = fst (execution env p u w a)"
  "publish_calls (snd (execution (env\<lparr>new_publisher := q\<rparr>) p' u w a)) =
     publish_calls (snd (execution env p u w a))"
  by (simp_all add: execution_def action_simps publish_calls_Cons split: option.splits)

text \<open>Every delivery that fails leaves its log record.\<close>

lemma reported_append: "reported p s \<Longrightarrow> reported p t \<Longrightarrow> reported p (s @ t)"
  by (auto simp add: reported_def)

lemma reported_silent: "publish_calls t = [] \<Longrightarrow> reported p t"
  by (simp add: reported_def)

lemma reported_Nil: "reported p []"
  by (simp add: reported_def)

lemma reported_execution: "reported p (snd (execution env p u w a))"
  by (simp add: execution_def action_simps reported_def publish_workflow_status_def
      publish_calls_Cons delivery_failed_def split: option.splits)

lemma reported_on_exception: "reported p (snd (on_exception p u e))"
  by (simp add: on_exception_def action_simps reported_def publish_workflow_status_def
      publish_calls_Cons delivery_failed_def)

lemma reported_try_block: "reported p (snd (try_block env p b u w f ps os))"
  unfolding try_block_def guarded_def snd_then_do
  by (rule reported_append)
    (simp_all add: reported_silent preparation_publishes reported_execution reported_Nil
      split: sum.splits)

lemma reported_guarded_run:
  "reported p (snd (try_except (try_block env p b u w f ps os) (on_exception p u)))"
  unfolding snd_try_except
  by (rule reported_append)
    (simp_all add: reported_try_block reported_on_exception reported_Nil split: sum.splits)

text \<open>The example world.\<close>

lemma example_setup:
  "setupbackend_fromstring example_env ''fromenv'' = Inr (Backend ''fromenv'')"
  "new_publisher example_env = Inr example_publisher"
  "truthy example_publisher"
  by (simp_all add: example_env_def example_backend_def example_publisher_def)

section \<open>Path resolution\<close>

text \<open>
  Claim C8. For operational options whose path values are relative, the options that
  \<open>load_yadage_operational_options\<close> returns hold a \<open>toplevel\<close>, an \<open>initdir\<close> and
  \<open>initfiles\<close> that all start with the workspace path, except that a \<open>toplevel\<close>
  starting with \<open>github:\<close> is returned unchanged. A missing \<open>initdir\<close> becomes the
  workspace path itself, which \<open>os.path.join\<close> ends with the separator; the init files
  keep their order.
\<close>

theorem relative_paths_resolved_under_workspace:
  assumes dec: "decode (drop 1 s) = Inr (JObj d)"
    and top: "dict_get d ''toplevel'' (JStr '''') = JStr t" "\<not> startswith t ''/''"
    and dir: "dict_get d ''initdir'' (JStr '''') = JStr i" "\<not> startswith i ''/''"
    and files: "dict_get d ''initfiles'' (JArr []) = JArr (map JStr fs)"
      "\<forall>f\<in>set fs. \<not> startswith f ''/''"
  shows "\<exists>d'. load_yadage_operational_options decode shared cw (Some s) = Inr d'
    \<and> map_of d' ''toplevel'' =
        Some (JStr (if startswith t ''github:'' then t
                    else os_path_join (workspace_path shared cw) t))
    \<and> (\<not> startswith t ''github:'' \<longrightarrow>
          prefix (workspace_path shared cw) (os_path_join (workspace_path shared cw) t))
    \<and> map_of d' ''initdir'' = Some (JStr (os_path_join (workspace_path shared cw) i))
    \<and> prefix (workspace_path shared cw) (os_path_join (workspace_path shared cw) i)
    \<and> (map_of d ''initdir'' = None \<longrightarrow>
          map_of d' ''initdir'' =
            Some (JStr (if endswith (workspace_path shared cw) ''/''
                        then workspace_path shared cw
                        else workspace_path shared cw @ ''/'')))
    \<and> map_of d' ''initfiles'' =
        Some (JArr (map (\<lambda>f. JStr (os_path_join (workspace_path shared cw) f)) fs))
    \<and> (\<forall>f\<in>set fs. prefix (workspace_path shared cw)
                       (os_path_join (workspace_path shared cw) f))"
proof -
  have i0: "map_of d ''initdir'' = None \<Longrightarrow> i = []"
    using dir(1) by (simp add: dict_get_def)
  show ?thesis
    using assms i0
    by (auto simp add: load_yadage_operational_options_def load_json_def
        prepare_operational_options_def dict_get_setitem join_under_def join_all_strings
        join_relative_prefix join_empty workspace_path_nonempty Let_def)
qed

theorem relative_paths_resolved_under_workspace_witness:
  "example_decode (drop 1 ''=raw'') = Inr (JObj example_raw_options)
   \<and> dict_get example_raw_options ''toplevel'' (JStr '''') = JStr ''''
   \<and> \<not> startswith '''' ''/''
   \<and> dict_get example_raw_options ''initfiles'' (JArr []) =
       JArr (map JStr [''a.yaml'', ''b.yaml''])
   \<and> \<not> startswith ''a.yaml'' ''/''
   \<and> \<not> startswith ''b.yaml'' ''/''
   \<and> load_yadage_operational_options example_decode ''/var/reana'' (Some ''w'') (Some ''=raw'')
       = Inr example_options
   \<and> map_of example_options ''toplevel'' = Some (JStr ''/var/reana/w/'')
   \<and> map_of example_options ''initdir'' = Some (JStr ''/var/reana/w/'')
   \<and> map_of example_options ''initfiles'' =
       Some (JArr [JStr ''/var/reana/w/a.yaml'', JStr ''/var/reana/w/b.yaml''])
   \<and> example_decode (drop 1 ''=remote'') = Inr (JObj example_remote_options)
   \<and> dict_get example_remote_options ''toplevel'' (JStr '''') = JStr ''github:reanahub/demo''
   \<and> \<not> startswith ''github:reanahub/demo'' ''/''
   \<and> (\<exists>d'. load_yadage_operational_options example_decode ''/var/reana'' (Some ''w'')
              (Some ''=remote'') = Inr d'
          \<and> map_of d' ''toplevel'' = Some (JStr ''github:reanahub/demo'')
          \<and> map_of d' ''initdir'' = Some (JStr ''/var/reana/w/'')
          \<and> map_of d' ''initfiles'' = Some (JArr []))"
proof -
  have dec: "example_decode (drop 1 ''=raw'') = Inr (JObj example_raw_options)"
    by (simp add: example_decode_def)
  have top: "dict_get example_raw_options ''toplevel'' (JStr '''') = JStr ''''"
    by (simp add: example_raw_options_def dict_get_def)
  have dir: "dict_get example_raw_options ''initdir'' (JStr '''') = JStr ''''"
    by (simp add: example_raw_options_def dict_get_def)
  have rel: "\<not> startswith '''' ''/''"
    by (simp add: startswith_def)
  have files: "dict_get example_raw_options ''initfiles'' (JArr []) =
       JArr (map JStr [''a.yaml'', ''b.yaml''])"
    by (simp add: example_raw_options_def dict_get_def)
  have frel: "\<forall>f\<in>set [''a.yaml'', ''b.yaml'']. \<not> startswith f ''/''"
    by (simp add: startswith_def)
  have frels: "\<not> startswith ''a.yaml'' ''/''" "\<not> startswith ''b.yaml'' ''/''"
    by (simp_all add: startswith_def)
  have res: "load_yadage_operational_options example_decode ''/var/reana'' (Some ''w'')
      (Some ''=raw'') = Inr example_options"
    by code_simp
  have ws: "workspace_path ''/var/reana'' (Some ''w'') = ''/var/reana/w''"
    by (simp add: workspace_path_def)
  have j: "os_path_join ''/var/reana/w'' '''' = ''/var/reana/w/''"
      "os_path_join ''/var/reana/w'' ''a.yaml'' = ''/var/reana/w/a.yaml''"
      "os_path_join ''/var/reana/w'' ''b.yaml'' = ''/var/reana/w/b.yaml''"
    by (simp_all add: os_path_join_def startswith_def endswith_def suffix_to_prefix)
  have first: "map_of example_options ''toplevel'' = Some (JStr ''/var/reana/w/'')
      \<and> map_of example_options ''initdir'' = Some (JStr ''/var/reana/w/'')
      \<and> map_of example_options ''initfiles'' =
          Some (JArr [JStr ''/var/reana/w/a.yaml'', JStr ''/var/reana/w/b.yaml''])"
    using relative_paths_resolved_under_workspace [where decode = example_decode
        and s = "''=raw''" and d = example_raw_options and t = "[]" and i = "[]"
        and fs = "[''a.yaml'', ''b.yaml'']" and shared = "''/var/reana''" and cw = "Some ''w''",
        OF dec top rel dir rel files frel] res
    by (auto simp add: ws j startswith_def)
  have dec': "example_decode (drop 1 ''=remote'') = Inr (JObj example_remote_options)"
    by (simp add: example_decode_def)
  have top': "dict_get example_remote_options ''toplevel'' (JStr '''')
      = JStr ''github:reanahub/demo''"
    by (simp add: example_remote_options_def dict_get_def)
  have rel': "\<not> startswith ''github:reanahub/demo'' ''/''"
    by (simp add: startswith_def)
  have dir': "dict_get example_remote_options ''initdir'' (JStr '''') = JStr ''''"
    by (simp add: example_remote_options_def dict_get_def)
  have files': "dict_get example_remote_options ''initfiles'' (JArr []) = JArr (map JStr [])"
    by (simp add: example_remote_options_def dict_get_def)
  have frel': "\<forall>f\<in>set ([] :: string list). \<not> startswith f ''/''"
    by simp
  have second: "\<exists>d'. load_yadage_operational_options example_decode ''/var/reana'' (Some ''w'')
              (Some ''=remote'') = Inr d'
          \<and> map_of d' ''toplevel'' = Some (JStr ''github:reanahub/demo'')
          \<and> map_of d' ''initdir'' = Some (JStr ''/var/reana/w/'')
          \<and> map_of d' ''initfiles'' = Some (JArr [])"
    using relative_paths_resolved_under_workspace [where decode = example_decode
        and s = "''=remote''" and d = example_remote_options and t = "''github:reanahub/demo''"
        and i = "[]" and fs = "[]" and shared = "''/var/reana''" and cw = "Some ''w''",
        OF dec' top' rel' dir' rel files' frel']
    by (auto simp add: ws j startswith_def)
  show ?thesis
    using dec top rel files frels res first dec' top' rel' second by blast
qed

text \<open>
  Claim C9. Resolving options whose \<open>toplevel\<close>, \<open>initdir\<close> and \<open>initfiles\<close> are already
  absolute paths returns the same options: \<open>os.path.join\<close> keeps an absolute second
  component as it is, so nothing is prefixed a second time.
\<close>

theorem absolute_paths_unchanged:
  assumes dec: "decode (drop 1 s) = Inr (JObj d)"
    and top: "map_of d ''toplevel'' = Some (JStr t)" "startswith t ''/''"
    and dir: "map_of d ''initdir'' = Some (JStr i)" "startswith i ''/''"
    and files: "map_of d ''initfiles'' = Some (JArr (map JStr fs))"
      "\<forall>f\<in>set fs. startswith f ''/''"
  shows "load_yadage_operational_options decode shared cw (Some s) = Inr d"
proof -
  have g: "\<not> startswith t ''github:''"
    using top(2) by (cases t) (auto simp: startswith_def)
  have m: "map (\<lambda>f. JStr (os_path_join (workspace_path shared cw) f)) fs = map JStr fs"
    using files(2) by (simp add: join_absolute)
  show ?thesis
    using assms g
    by (simp add: load_yadage_operational_options_def load_json_def
        prepare_operational_options_def dict_get_def join_under_def join_all_strings
        join_absolute setitem_same m Let_def)
qed

theorem absolute_paths_unchanged_witness:
  "example_decode (drop 1 ''=resolved'') = Inr (JObj example_options)
   \<and> map_of example_options ''toplevel'' = Some (JStr ''/var/reana/w/'')
   \<and> startswith ''/var/reana/w/'' ''/''
   \<and> map_of example_options ''initdir'' = Some (JStr ''/var/reana/w/'')
   \<and> map_of example_options ''initfiles'' =
       Some (JArr (map JStr [''/var/reana/w/a.yaml'', ''/var/reana/w/b.yaml'']))
   \<and> startswith ''/var/reana/w/a.yaml'' ''/''
   \<and> startswith ''/var/reana/w/b.yaml'' ''/''
   \<and> load_yadage_operational_options example_decode ''/var/reana'' (Some ''w'')
       (Some ''=resolved'') = Inr example_options"
proof -
  have dec: "example_decode (drop 1 ''=resolved'') = Inr (JObj example_options)"
    by (simp add: example_decode_def)
  have top: "map_of example_options ''toplevel'' = Some (JStr ''/var/reana/w/'')"
    by (simp add: example_options_def)
  have ab: "startswith ''/var/reana/w/'' ''/''"
    by (simp add: startswith_def)
  have dir: "map_of example_options ''initdir'' = Some (JStr ''/var/reana/w/'')"
    by (simp add: example_options_def)
  have files: "map_of example_options ''initfiles'' =
       Some (JArr (map JStr [''/var/reana/w/a.yaml'', ''/var/reana/w/b.yaml'']))"
    by (simp add: example_options_def)
  have fab: "\<forall>f\<in>set [''/var/reana/w/a.yaml'', ''/var/reana/w/b.yaml'']. startswith f ''/''"
    by (simp add: startswith_def)
  have fabs: "startswith ''/var/reana/w/a.yaml'' ''/''" "startswith ''/var/reana/w/b.yaml'' ''/''"
    by (simp_all add: startswith_def)
  show ?thesis
    using absolute_paths_unchanged [where decode = example_decode and s = "''=resolved''"
        and d = example_options and t = "''/var/reana/w/''" and i = "''/var/reana/w/''"
        and fs = "[''/var/reana/w/a.yaml'', ''/var/reana/w/b.yaml'']"
        and shared = "''/var/reana''" and cw = "Some ''w''",
        OF dec top ab dir ab files fab]
      dec top ab dir files fabs
    by blast
qed

section \<open>The initial data\<close>

text \<open>
  Claim C4. When every init file of the list loads as a dictionary, the merged initial
  data is the overlay of the dictionaries of the files in the order of the list, a later
  file winning over an earlier one, with the workflow parameters laid over it last. For
  the files \<open>a.yaml\<close> with \<open>{x: 1, y: 2}\<close> and \<open>b.yaml\<close> with \<open>{y: 3, z: 4}\<close> and the
  parameters \<open>{z: 5}\<close> the result is \<open>{x: 1, y: 3, z: 5}\<close>.
\<close>

theorem merge_initdata_overlay:
  assumes "map_of os ''initfiles'' = Some v"
    and "py_iter v = Inr fs"
    and "list_all2 (\<lambda>f m. safe_load_open env f = Inr (as_mapping m)) fs ms"
    and "\<forall>m\<in>set ms. distinct (map fst m)"
    and "distinct (map fst ps)"
  shows "\<exists>d. fst (merge_initdata env os (Some ps)) = Inr d
    \<and> map_of d = foldl (++) Map.empty (map map_of ms) ++ map_of ps"
proof -
  obtain d' where d': "fst (update_from_files env fs []) = Inr d'"
      "map_of d' = foldl (++) (map_of []) (map map_of ms)"
    using update_from_files_overlay [OF assms(3,4), of "[]"] by blast
  show ?thesis
    using assms(1,2,5) d'
    by (simp add: merge_initdata_def fst_then_do pure_result_def dict_getitem_def
        update_params_def map_of_dict_update)
qed

theorem merge_initdata_overlay_witness:
  "map_of example_options ''initfiles'' =
     Some (JArr [JStr ''/var/reana/w/a.yaml'', JStr ''/var/reana/w/b.yaml''])
   \<and> list_all2 (\<lambda>f m. safe_load_open example_env f = Inr (as_mapping m))
       [JStr ''/var/reana/w/a.yaml'', JStr ''/var/reana/w/b.yaml'']
       [[(''x'', JNum 1), (''y'', JNum 2)], [(''y'', JNum 3), (''z'', JNum 4)]]
   \<and> fst (merge_initdata example_env example_options (Some [(''z'', JNum 5)])) =
       Inr [(''x'', JNum 1), (''y'', JNum 3), (''z'', JNum 5)]
   \<and> map_of [(''x'', JNum 1), (''y'', JNum 3), (''z'', JNum 5)] =
       foldl (++) Map.empty
         (map map_of [[(''x'', JNum 1), (''y'', JNum 2)], [(''y'', JNum 3), (''z'', JNum 4)]])
       ++ map_of [(''z'', JNum 5)]"
proof -
  have h1: "map_of example_options ''initfiles'' =
     Some (JArr [JStr ''/var/reana/w/a.yaml'', JStr ''/var/reana/w/b.yaml''])"
    by (simp add: example_options_def)
  have h2: "py_iter (JArr [JStr ''/var/reana/w/a.yaml'', JStr ''/var/reana/w/b.yaml'']) =
     Inr [JStr ''/var/reana/w/a.yaml'', JStr ''/var/reana/w/b.yaml'']"
    by simp
  have h3: "list_all2 (\<lambda>f m. safe_load_open example_env f = Inr (as_mapping m))
     [JStr ''/var/reana/w/a.yaml'', JStr ''/var/reana/w/b.yaml'']
     [[(''x'', JNum 1), (''y'', JNum 2)], [(''y'', JNum 3), (''z'', JNum 4)]]"
    by (simp add: example_env_def example_files_def as_mapping_def)
  have h4: "\<forall>m\<in>set [[(''x'', JNum 1), (''y'', JNum 2)], [(''y'', JNum 3), (''z'', JNum 4)]].
     distinct (map fst m)"
    by simp
  have h5: "distinct (map fst [(''z'', JNum 5)])"
    by simp
  have e: "fst (merge_initdata example_env example_options (Some [(''z'', JNum 5)])) =
       Inr [(''x'', JNum 1), (''y'', JNum 3), (''z'', JNum 5)]"
    by code_simp
  show ?thesis
    using merge_initdata_overlay [OF h1 h2 h3 h4 h5] h1 h3 e by simp
qed

section \<open>The status events of a run\<close>

text \<open>
  Claim C1 fails on the code. \<open>setupbackend_fromstring\<close> is called before the
  \<open>try\<close> block: when it raises, the exception leaves \<open>run_yadage_workflow\<close> and the run
  ends without any call of \<open>publish_workflow_status\<close>, so that no terminal status is
  published on this exit path. The whole trace of such a run is the log record, the two
  environment variables, the umask and the call of the backend set-up.
\<close>

theorem backend_failure_publishes_nothing:
  "run_yadage_workflow env_backend_fails ''u1'' ''w'' ''wf.yml'' (Some [(''z'', JNum 5)])
       example_options =
     (Inl (ExternalError ''backend is not configured''),
      [LogInfo ''getting socket..'',
       SetEnviron ''workflow_uuid'' ''u1'',
       SetEnviron ''workflow_workspace'' ''/var/reana/w'',
       SetUmask 2,
       SetupBackend ''fromenv''])
   \<and> publish_calls (snd (run_yadage_workflow env_backend_fails ''u1'' ''w'' ''wf.yml''
          (Some [(''z'', JNum 5)]) example_options)) = []"
  by code_simp

text \<open>
  The exit paths of the \<open>try\<close> block itself are covered by its handler: once the backend
  set-up and the publisher construction have returned a publisher that tests true, the
  run returns and its terminal calls of \<open>publish_workflow_status\<close> are exactly one, status
  \<open>3\<close> with the message of the exception when a step of the block raised, status \<open>2\<close> when
  the block returned. The exit paths without a terminal status are those of the two calls
  placed before the block.
\<close>

lemma guarded_region_one_terminal_publish:
  assumes "setupbackend_fromstring env ''fromenv'' = Inr b"
    and "new_publisher env = Inr p"
    and "truthy p"
  shows "fst (run_yadage_workflow env u w f ps os) = Inr ()
    \<and> filter terminal (publish_calls (snd (run_yadage_workflow env u w f ps os))) =
        [case fst (try_block env p b u w f ps os) of
           Inl e \<Rightarrow> (u, 3, Some (''workflow failed: '' @ str e))
         | Inr _ \<Rightarrow> (u, 2, None)]"
  using try_block_cases [of env p b u w f ps os] assms(3)
  by (auto simp add: run_guarded [OF assms(1,2)] fst_try_except snd_try_except
      publish_calls_Cons publish_calls_on_exception terminal_def)

lemma guarded_region_one_terminal_publish_example:
  "setupbackend_fromstring example_env ''fromenv'' = Inr (Backend ''fromenv'')
   \<and> new_publisher example_env = Inr example_publisher
   \<and> truthy example_publisher
   \<and> fst (run_yadage_workflow example_env ''u1'' ''w'' ''wf.yml'' (Some [(''z'', JNum 5)])
            example_options) = Inr ()
   \<and> filter terminal (publish_calls (snd (run_yadage_workflow example_env ''u1'' ''w''
            ''wf.yml'' (Some [(''z'', JNum 5)]) example_options))) = [(''u1'', 2, None)]
   \<and> fst (run_yadage_workflow example_env ''u1'' ''w'' ''wf.yml'' None example_options)
       = Inr ()
   \<and> filter terminal (publish_calls (snd (run_yadage_workflow example_env ''u1'' ''w''
            ''wf.yml'' None example_options))) =
       [(''u1'', 3, Some (''workflow failed: '' @ quoted ''NoneType''
                          @ '' object is not iterable''))]"
proof -
  have g: "fst (try_block example_env example_publisher (Backend ''fromenv'') ''u1'' ''w''
      ''wf.yml'' (Some [(''z'', JNum 5)]) example_options) = Inr ()"
    by code_simp
  have h: "fst (try_block example_env example_publisher (Backend ''fromenv'') ''u1'' ''w''
      ''wf.yml'' None example_options) =
      Inl (TypeError (quoted ''NoneType'' @ '' object is not iterable''))"
    by code_simp
  show ?thesis
    using guarded_region_one_terminal_publish [OF example_setup, where u = "''u1''"
        and w = "''w''" and f = "''wf.yml''" and ps = "Some [(''z'', JNum 5)]"
        and os = example_options]
      guarded_region_one_terminal_publish [OF example_setup, where u = "''u1''"
        and w = "''w''" and f = "''wf.yml''" and ps = None and os = example_options]
      example_setup
    by (simp add: g h)
qed

text \<open>
  Claim C2. In a run that has entered the \<open>try\<close> block with a publisher that tests true:
  when the preparation raises (the workflow file is missing, an init file cannot be
  loaded or merged, the connectivity check fails), the calls of
  \<open>publish_workflow_status\<close> are exactly the one with status \<open>3\<close>; when the preparation
  returned, the engine context was entered and a later step of the \<open>with\<close> statement
  raises, they are exactly status \<open>1\<close> followed by status \<open>3\<close>.
\<close>

theorem failed_run_status_sequence:
  assumes "setupbackend_fromstring env ''fromenv'' = Inr b"
    and "new_publisher env = Inr p"
    and "truthy p"
  shows "(\<forall>e. fst (preparation env f
                (os_path_join (workspace_path (shared_volume_path env) (Some w)) f) ps os) = Inl e
           \<longrightarrow> publish_calls (snd (run_yadage_workflow env u w f ps os)) =
                 [(u, 3, Some (''workflow failed: '' @ str e))])
    \<and> (\<forall>x e. fst (preparation env f
                (os_path_join (workspace_path (shared_volume_path env) (Some w)) f) ps os) = Inr x
           \<and> steering_ctx env
               (steering_kwargs (workspace_path (shared_volume_path env) (Some w)) b os x) = None
           \<and> fst (execution env p u (workspace_path (shared_volume_path env) (Some w))
                 (steering_kwargs (workspace_path (shared_volume_path env) (Some w)) b os x))
               = Inl e
           \<longrightarrow> publish_calls (snd (run_yadage_workflow env u w f ps os)) =
                 [(u, 1, None), (u, 3, Some (''workflow failed: '' @ str e))])"
proof (intro conjI allI impI)
  fix e
  assume "fst (preparation env f
                (os_path_join (workspace_path (shared_volume_path env) (Some w)) f) ps os) = Inl e"
  then show "publish_calls (snd (run_yadage_workflow env u w f ps os)) =
                 [(u, 3, Some (''workflow failed: '' @ str e))]"
    using assms(3)
    by (simp add: run_guarded [OF assms(1,2)] fst_try_except snd_try_except
      publish_calls_Cons fst_try_block publish_calls_try_block publish_calls_on_exception)
next
  fix x e
  assume h: "fst (preparation env f
                (os_path_join (workspace_path (shared_volume_path env) (Some w)) f) ps os) = Inr x
           \<and> steering_ctx env
               (steering_kwargs (workspace_path (shared_volume_path env) (Some w)) b os x) = None
           \<and> fst (execution env p u (workspace_path (shared_volume_path env) (Some w))
                 (steering_kwargs (workspace_path (shared_volume_path env) (Some w)) b os x))
               = Inl e"
  show "publish_calls (snd (run_yadage_workflow env u w f ps os)) =
                 [(u, 1, None), (u, 3, Some (''workflow failed: '' @ str e))]"
    using execution_cases [of env p u "workspace_path (shared_volume_path env) (Some w)"
        "steering_kwargs (workspace_path (shared_volume_path env) (Some w)) b os x"] h assms(3)
    by (auto simp add: run_guarded [OF assms(1,2)] fst_try_except snd_try_except
      publish_calls_Cons fst_try_block publish_calls_try_block publish_calls_on_exception)
qed

theorem failed_run_status_sequence_witness:
  "setupbackend_fromstring example_env ''fromenv'' = Inr (Backend ''fromenv'')
   \<and> new_publisher example_env = Inr example_publisher
   \<and> truthy example_publisher
   \<and> fst (preparation example_env ''wf.yml''
        (os_path_join (workspace_path (shared_volume_path example_env) (Some ''w'')) ''wf.yml'')
        (Some []) example_missing_options) = Inl (ExternalError ''No such file or directory'')
   \<and> publish_calls (snd (run_yadage_workflow example_env ''u1'' ''w'' ''wf.yml'' (Some [])
         example_missing_options)) =
       [(''u1'', 3, Some ''workflow failed: No such file or directory'')]
   \<and> setupbackend_fromstring env_engine_fails ''fromenv'' = Inr (Backend ''fromenv'')
   \<and> new_publisher env_engine_fails = Inr example_publisher
   \<and> fst (preparation env_engine_fails ''wf.yml''
        (os_path_join (workspace_path (shared_volume_path env_engine_fails) (Some ''w''))
           ''wf.yml'')
        (Some []) example_plain_options) = Inr (JObj [], JStr ''/var/reana/w/'', [])
   \<and> steering_ctx env_engine_fails
        (steering_kwargs (workspace_path (shared_volume_path env_engine_fails) (Some ''w''))
           (Backend ''fromenv'') example_plain_options (JObj [], JStr ''/var/reana/w/'', []))
       = None
   \<and> fst (execution env_engine_fails example_publisher ''u1''
        (workspace_path (shared_volume_path env_engine_fails) (Some ''w''))
        (steering_kwargs (workspace_path (shared_volume_path env_engine_fails) (Some ''w''))
           (Backend ''fromenv'') example_plain_options (JObj [], JStr ''/var/reana/w/'', [])))
       = Inl (ExternalError ''step failed'')
   \<and> publish_calls (snd (run_yadage_workflow env_engine_fails ''u1'' ''w'' ''wf.yml''
         (Some []) example_plain_options)) =
       [(''u1'', 1, None), (''u1'', 3, Some ''workflow failed: step failed'')]"
proof -
  have a: "fst (preparation example_env ''wf.yml''
        (os_path_join (workspace_path (shared_volume_path example_env) (Some ''w'')) ''wf.yml'')
        (Some []) example_missing_options) = Inl (ExternalError ''No such file or directory'')"
    by code_simp
  have s: "setupbackend_fromstring env_engine_fails ''fromenv'' = Inr (Backend ''fromenv'')"
      "new_publisher env_engine_fails = Inr example_publisher"
    by (simp_all add: env_engine_fails_def example_env_def example_backend_def)
  have b: "fst (preparation env_engine_fails ''wf.yml''
        (os_path_join (workspace_path (shared_volume_path env_engine_fails) (Some ''w''))
           ''wf.yml'')
        (Some []) example_plain_options) = Inr (JObj [], JStr ''/var/reana/w/'', [])"
    by code_simp
  have c: "steering_ctx env_engine_fails
        (steering_kwargs (workspace_path (shared_volume_path env_engine_fails) (Some ''w''))
           (Backend ''fromenv'') example_plain_options (JObj [], JStr ''/var/reana/w/'', []))
       = None"
    by (simp add: env_engine_fails_def example_env_def enters_def)
  have d: "fst (execution env_engine_fails example_publisher ''u1''
        (workspace_path (shared_volume_path env_engine_fails) (Some ''w''))
        (steering_kwargs (workspace_path (shared_volume_path env_engine_fails) (Some ''w''))
           (Backend ''fromenv'') example_plain_options (JObj [], JStr ''/var/reana/w/'', [])))
       = Inl (ExternalError ''step failed'')"
    by code_simp
  have first: "publish_calls (snd (run_yadage_workflow example_env ''u1'' ''w'' ''wf.yml''
         (Some []) example_missing_options)) =
       [(''u1'', 3, Some ''workflow failed: No such file or directory'')]"
    using failed_run_status_sequence [OF example_setup, where u = "''u1''" and w = "''w''"
        and f = "''wf.yml''" and ps = "Some []" and os = example_missing_options] a
    by simp
  have second: "publish_calls (snd (run_yadage_workflow env_engine_fails ''u1'' ''w''
         ''wf.yml'' (Some []) example_plain_options)) =
       [(''u1'', 1, None), (''u1'', 3, Some ''workflow failed: step failed'')]"
    using failed_run_status_sequence [OF s example_setup(3), where u = "''u1''"
        and w = "''w''" and f = "''wf.yml''" and ps = "Some []" and os = example_plain_options]
      b c d
    by simp
  show ?thesis
    using example_setup a first s b c d second by blast
qed

text \<open>
  Claim C3. For every run in which the preparation returns, the engine context is
  entered and the tracker, the engine arguments and the engine run all return, the calls
  of \<open>publish_workflow_status\<close> are exactly status \<open>1\<close> followed by status \<open>2\<close>, and the
  run returns.
\<close>

theorem successful_run_status_sequence:
  assumes "setupbackend_fromstring env ''fromenv'' = Inr b"
    and "new_publisher env = Inr p"
    and "fst (preparation env f
           (os_path_join (workspace_path (shared_volume_path env) (Some w)) f) ps os) = Inr x"
    and "steering_ctx env
           (steering_kwargs (workspace_path (shared_volume_path env) (Some w)) b os x) = None"
    and "new_tracker env u = None"
    and "adage_argument env = None"
    and "run_adage env = None"
  shows "fst (run_yadage_workflow env u w f ps os) = Inr ()
    \<and> publish_calls (snd (run_yadage_workflow env u w f ps os)) = [(u, 1, None), (u, 2, None)]"
  using execution_returns [OF assms(4-7), of p "workspace_path (shared_volume_path env) (Some w)"]
    assms(3)
  by (simp add: run_guarded [OF assms(1,2)] fst_try_except snd_try_except
      publish_calls_Cons fst_try_block publish_calls_try_block)

theorem successful_run_status_sequence_witness:
  "setupbackend_fromstring example_env ''fromenv'' = Inr (Backend ''fromenv'')
   \<and> new_publisher example_env = Inr example_publisher
   \<and> fst (preparation example_env ''wf.yml''
        (os_path_join (workspace_path (shared_volume_path example_env) (Some ''w'')) ''wf.yml'')
        (Some [(''z'', JNum 5)]) example_options) =
       Inr (JObj [], JStr ''/var/reana/w/'',
            [(''x'', JNum 1), (''y'', JNum 3), (''z'', JNum 5)])
   \<and> new_tracker example_env ''u1'' = None
   \<and> adage_argument example_env = None
   \<and> run_adage example_env = None
   \<and> fst (run_yadage_workflow example_env ''u1'' ''w'' ''wf.yml'' (Some [(''z'', JNum 5)])
        example_options) = Inr ()
   \<and> publish_calls (snd (run_yadage_workflow example_env ''u1'' ''w'' ''wf.yml''
        (Some [(''z'', JNum 5)]) example_options)) = [(''u1'', 1, None), (''u1'', 2, None)]"
proof -
  have a: "fst (preparation example_env ''wf.yml''
        (os_path_join (workspace_path (shared_volume_path example_env) (Some ''w'')) ''wf.yml'')
        (Some [(''z'', JNum 5)]) example_options) =
       Inr (JObj [], JStr ''/var/reana/w/'',
            [(''x'', JNum 1), (''y'', JNum 3), (''z'', JNum 5)])"
    by code_simp
  have b: "steering_ctx example_env
        (steering_kwargs (workspace_path (shared_volume_path example_env) (Some ''w''))
           (Backend ''fromenv'') example_options
           (JObj [], JStr ''/var/reana/w/'',
            [(''x'', JNum 1), (''y'', JNum 3), (''z'', JNum 5)])) = None"
    by (simp add: example_env_def enters_def)
  have c: "new_tracker example_env ''u1'' = None" "adage_argument example_env = None"
      "run_adage example_env = None"
    by (simp_all add: example_env_def tracks_def)
  show ?thesis
    using successful_run_status_sequence [OF example_setup(1,2) a b c] example_setup a c
    by blast
qed

text \<open>
  Claim C7. For every run, entered with a publisher that tests true, whose workflow file
  does not exist at its absolute path, the existence check is the only thing the \<open>try\<close>
  block does: the specification loader is not called, and the one status event is the
  failure, with a message that names the file.
\<close>

theorem missing_workflow_file_trace:
  assumes "setupbackend_fromstring env ''fromenv'' = Inr b"
    and "new_publisher env = Inr p"
    and "truthy p"
    and "\<not> path_exists env (os_path_join (workspace_path (shared_volume_path env) (Some w)) f)"
  shows "run_yadage_workflow env u w f ps os =
    (Inr (),
     preamble env u w @
     [NewPublisher,
      PathExists (os_path_join (workspace_path (shared_volume_path env) (Some w)) f),
      LogError (''Workflow failed: Workflow file '' @ f @ '' does not exist''),
      Publish u 3 (Some (''workflow failed: Workflow file '' @ f @ '' does not exist'')),
      if delivers p (u, 3, Some (''workflow failed: Workflow file '' @ f @ '' does not exist''))
      then Delivered u 3 (Some (''workflow failed: Workflow file '' @ f @ '' does not exist''))
      else delivery_failed
             (u, 3, Some (''workflow failed: Workflow file '' @ f @ '' does not exist''))])"
  using assms(3,4)
  by (simp add: run_guarded [OF assms(1,2)] try_block_def guarded_def preparation_def
      load_workflow_def action_simps on_exception_def publish_workflow_status_def)

theorem missing_workflow_file_trace_witness:
  "setupbackend_fromstring env_file_missing ''fromenv'' = Inr (Backend ''fromenv'')
   \<and> new_publisher env_file_missing = Inr example_publisher
   \<and> truthy example_publisher
   \<and> \<not> path_exists env_file_missing
         (os_path_join (workspace_path (shared_volume_path env_file_missing) (Some ''w''))
            ''wf.yml'')
   \<and> run_yadage_workflow env_file_missing ''u1'' ''w'' ''wf.yml'' (Some []) example_options =
       (Inr (),
        [LogInfo ''getting socket..'',
         SetEnviron ''workflow_uuid'' ''u1'',
         SetEnviron ''workflow_workspace'' ''/var/reana/w'',
         SetUmask 2,
         SetupBackend ''fromenv'',
         NewPublisher,
         PathExists ''/var/reana/w/wf.yml'',
         LogError ''Workflow failed: Workflow file wf.yml does not exist'',
         Publish ''u1'' 3 (Some ''workflow failed: Workflow file wf.yml does not exist''),
         Delivered ''u1'' 3 (Some ''workflow failed: Workflow file wf.yml does not exist'')])"
proof -
  have s: "setupbackend_fromstring env_file_missing ''fromenv'' = Inr (Backend ''fromenv'')"
      "new_publisher env_file_missing = Inr example_publisher"
    by (simp_all add: env_file_missing_def example_env_def example_backend_def)
  have m: "\<not> path_exists env_file_missing
         (os_path_join (workspace_path (shared_volume_path env_file_missing) (Some ''w''))
            ''wf.yml'')"
    by (simp add: env_file_missing_def no_path_exists_def)
  have v: "shared_volume_path env_file_missing = ''/var/reana''"
      "reana_workflow_umask env_file_missing = 2"
      "os_path_join ''/var/reana/w'' ''wf.yml'' = ''/var/reana/w/wf.yml''"
      "workspace_path ''/var/reana'' (Some ''w'') = ''/var/reana/w''"
      "delivers example_publisher
         (''u1'', 3, Some ''workflow failed: Workflow file wf.yml does not exist'')"
    by (simp_all add: env_file_missing_def example_env_def workspace_path_def os_path_join_def
        startswith_def endswith_def suffix_to_prefix example_publisher_def delivers_all_def)
  show ?thesis
    using missing_workflow_file_trace [OF s example_setup(3) m, where u = "''u1''"
        and ps = "Some []" and os = example_options]
      s example_setup(3) m
    by (simp add: preamble_def v)
qed

section \<open>The status publisher\<close>

text \<open>
  Claim C5. Whatever the status channel delivers, a run that has set up its backend and
  constructed its publisher returns without an exception; it makes the same calls of
  \<open>publish_workflow_status\<close> as with any other channel, and every event that was not
  delivered has left its log record.
\<close>

theorem publish_failure_never_raises:
  assumes "setupbackend_fromstring env ''fromenv'' = Inr b"
    and "new_publisher env = Inr p"
  shows "fst (run_yadage_workflow env u w f ps os) = Inr ()
    \<and> publish_calls (snd (run_yadage_workflow env u w f ps os)) =
        publish_calls (snd (run_yadage_workflow
          (env\<lparr>new_publisher := Inr (p\<lparr>delivers := d\<rparr>)\<rparr>) u w f ps os))
    \<and> (\<forall>ev\<in>set (publish_calls (snd (run_yadage_workflow env u w f ps os))).
          \<not> delivers p ev \<longrightarrow>
          delivery_failed ev \<in> set (snd (run_yadage_workflow env u w f ps os)))"
proof (intro conjI)
  show "fst (run_yadage_workflow env u w f ps os) = Inr ()"
    by (simp add: run_guarded [OF assms] fst_try_except split: sum.splits)
next
  have b': "setupbackend_fromstring (env\<lparr>new_publisher := Inr (p\<lparr>delivers := d\<rparr>)\<rparr>) ''fromenv''
              = Inr b"
    using assms(1) by simp
  have p': "new_publisher (env\<lparr>new_publisher := Inr (p\<lparr>delivers := d\<rparr>)\<rparr>)
              = Inr (p\<lparr>delivers := d\<rparr>)"
    by simp
  show "publish_calls (snd (run_yadage_workflow env u w f ps os)) =
        publish_calls (snd (run_yadage_workflow
          (env\<lparr>new_publisher := Inr (p\<lparr>delivers := d\<rparr>)\<rparr>) u w f ps os))"
    by (simp add: run_guarded [OF assms] run_guarded [OF b' p'] publish_calls_Cons
        snd_try_except fst_try_block publish_calls_try_block preparation_publisher
        execution_publisher [where p = p] publish_calls_on_exception preamble_def
        split: sum.splits)
next
  have "reported p (snd (try_except (try_block env p b u w f ps os) (on_exception p u)))"
    by (rule reported_guarded_run)
  then show "\<forall>ev\<in>set (publish_calls (snd (run_yadage_workflow env u w f ps os))).
          \<not> delivers p ev \<longrightarrow>
          delivery_failed ev \<in> set (snd (run_yadage_workflow env u w f ps os))"
    by (auto simp add: run_guarded [OF assms] reported_def publish_calls_Cons)
qed

theorem publish_failure_never_raises_witness:
  "setupbackend_fromstring env_channel_down ''fromenv'' = Inr (Backend ''fromenv'')
   \<and> new_publisher env_channel_down = Inr silent_publisher
   \<and> \<not> delivers silent_publisher (''u1'', 1, None)
   \<and> \<not> delivers silent_publisher (''u1'', 2, None)
   \<and> fst (run_yadage_workflow env_channel_down ''u1'' ''w'' ''wf.yml'' (Some [])
        example_options) = Inr ()
   \<and> publish_calls (snd (run_yadage_workflow env_channel_down ''u1'' ''w'' ''wf.yml''
        (Some []) example_options)) = [(''u1'', 1, None), (''u1'', 2, None)]
   \<and> publish_calls (snd (run_yadage_workflow example_env ''u1'' ''w'' ''wf.yml''
        (Some []) example_options)) = [(''u1'', 1, None), (''u1'', 2, None)]
   \<and> delivery_failed (''u1'', 1, None) \<in> set (snd (run_yadage_workflow env_channel_down
        ''u1'' ''w'' ''wf.yml'' (Some []) example_options))
   \<and> delivery_failed (''u1'', 2, None) \<in> set (snd (run_yadage_workflow env_channel_down
        ''u1'' ''w'' ''wf.yml'' (Some []) example_options))"
proof -
  have s: "setupbackend_fromstring env_channel_down ''fromenv'' = Inr (Backend ''fromenv'')"
      "new_publisher env_channel_down = Inr silent_publisher"
    by (simp_all add: env_channel_down_def example_env_def example_backend_def)
  have n: "\<not> delivers silent_publisher (''u1'', 1, None)"
      "\<not> delivers silent_publisher (''u1'', 2, None)"
    by (simp_all add: silent_publisher_def delivers_none_def)
  have c: "publish_calls (snd (run_yadage_workflow env_channel_down ''u1'' ''w'' ''wf.yml''
        (Some []) example_options)) = [(''u1'', 1, None), (''u1'', 2, None)]"
    by code_simp
  have e: "env_channel_down\<lparr>new_publisher :=
        Inr (silent_publisher\<lparr>delivers := delivers_all\<rparr>)\<rparr> = example_env"
    by (simp add: env_channel_down_def example_env_def silent_publisher_def
        example_publisher_def)
  show ?thesis
    using publish_failure_never_raises [OF s, where u = "''u1''" and w = "''w''"
        and f = "''wf.yml''" and ps = "Some []" and os = example_options
        and d = delivers_all] s n c
    by (simp add: e)
qed

text \<open>
  Claim C6 fails on the code. The publisher is constructed before the \<open>try\<close> block: when
  its construction raises, the exception leaves \<open>run_yadage_workflow\<close>, and neither the
  log record of the \<open>else\<close> branch of the handler nor any status event is written.
\<close>

theorem publisher_construction_failure_escapes:
  "run_yadage_workflow env_publisher_fails ''u1'' ''w'' ''wf.yml'' (Some []) example_options =
     (Inl (ExternalError ''broker unreachable''),
      [LogInfo ''getting socket..'',
       SetEnviron ''workflow_uuid'' ''u1'',
       SetEnviron ''workflow_workspace'' ''/var/reana/w'',
       SetUmask 2,
       SetupBackend ''fromenv'',
       NewPublisher])"
  by code_simp

section \<open>The engine arguments\<close>

text \<open>
  Claim C10. Whenever a run calls \<open>steering_ctx\<close>, the argument \<open>accept_metadir\<close> is true
  exactly when the key \<open>accept_metadir\<close> is present in the operational options, whatever
  value is stored under it.
\<close>

theorem accept_metadir_iff_key_present:
  assumes "args \<in> set (engine_calls (snd (run_yadage_workflow env u w f ps os)))"
  shows "accept_metadir args = (''accept_metadir'' \<in> fst ` set os)"
proof (cases "setupbackend_fromstring env ''fromenv''")
  case (Inl e)
  then show ?thesis using assms by (simp add: run_backend_raises)
next
  case b: (Inr b)
  show ?thesis
  proof (cases "new_publisher env")
    case (Inl e)
    then show ?thesis using assms b by (simp add: run_publisher_raises engine_calls_Cons)
  next
    case (Inr p)
    have "args \<in> set (engine_calls (snd (try_block env p b u w f ps os)))"
      using assms
      by (simp add: run_guarded [OF b Inr] engine_calls_Cons snd_try_except on_exception_engine
          split: sum.splits)
    then have "accept_metadir args = dict_contains ''accept_metadir'' os"
      by (rule try_block_engine)
    then show ?thesis
      by (simp add: dict_contains_def map_of_eq_None_iff)
  qed
qed

theorem accept_metadir_iff_key_present_witness:
  "engine_calls (snd (run_yadage_workflow example_env ''u1'' ''w'' ''wf.yml'' (Some [])
      example_options)) =
     [steering_kwargs ''/var/reana/w'' (Backend ''fromenv'') example_options
        (JObj [], JStr ''/var/reana/w/'', [(''x'', JNum 1), (''y'', JNum 3), (''z'', JNum 4)])]
   \<and> map_of example_options ''accept_metadir'' = Some (JBool False)
   \<and> accept_metadir (steering_kwargs ''/var/reana/w'' (Backend ''fromenv'') example_options
        (JObj [], JStr ''/var/reana/w/'', [(''x'', JNum 1), (''y'', JNum 3), (''z'', JNum 4)]))
   \<and> engine_calls (snd (run_yadage_workflow example_env ''u1'' ''w'' ''wf.yml'' (Some [])
      example_plain_options)) =
     [steering_kwargs ''/var/reana/w'' (Backend ''fromenv'') example_plain_options
        (JObj [], JStr ''/var/reana/w/'', [])]
   \<and> map_of example_plain_options ''accept_metadir'' = None
   \<and> \<not> accept_metadir (steering_kwargs ''/var/reana/w'' (Backend ''fromenv'')
        example_plain_options (JObj [], JStr ''/var/reana/w/'', []))"
proof -
  have a: "engine_calls (snd (run_yadage_workflow example_env ''u1'' ''w'' ''wf.yml'' (Some [])
      example_options)) =
     [steering_kwargs ''/var/reana/w'' (Backend ''fromenv'') example_options
        (JObj [], JStr ''/var/reana/w/'', [(''x'', JNum 1), (''y'', JNum 3), (''z'', JNum 4)])]"
    by code_simp
  have b: "engine_calls (snd (run_yadage_workflow example_env ''u1'' ''w'' ''wf.yml'' (Some [])
      example_plain_options)) =
     [steering_kwargs ''/var/reana/w'' (Backend ''fromenv'') example_plain_options
        (JObj [], JStr ''/var/reana/w/'', [])]"
    by code_simp
  have k: "map_of example_options ''accept_metadir'' = Some (JBool False)"
      "''accept_metadir'' \<in> fst ` set example_options"
      "map_of example_plain_options ''accept_metadir'' = None"
      "''accept_metadir'' \<notin> fst ` set example_plain_options"
    by (simp_all add: example_options_def example_plain_options_def)
  have m: "steering_kwargs ''/var/reana/w'' (Backend ''fromenv'') example_options
        (JObj [], JStr ''/var/reana/w/'', [(''x'', JNum 1), (''y'', JNum 3), (''z'', JNum 4)])
      \<in> set (engine_calls (snd (run_yadage_workflow example_env ''u1'' ''w'' ''wf.yml''
          (Some []) example_options)))"
    by (simp add: a)
  have n: "steering_kwargs ''/var/reana/w'' (Backend ''fromenv'') example_plain_options
        (JObj [], JStr ''/var/reana/w/'', [])
      \<in> set (engine_calls (snd (run_yadage_workflow example_env ''u1'' ''w'' ''wf.yml''
          (Some []) example_plain_options)))"
    by (simp add: b)
  show ?thesis
    using accept_metadir_iff_key_present [OF m] accept_metadir_iff_key_present [OF n] a b k
    by simp
qed

end
